theory Spec2Isabelle
  imports Main
begin

unbundle bit_operations_syntax

section \<open>Strings, JSON values and errors\<close>

text \<open>
  A Python \<open>str\<close> is a sequence of Unicode code points and \<open>len\<close> counts code points,
  so a string is a list of code points here. Literals of the source are written
  \<open>py ''...''\<close>. Bytes are a list of numbers below 256; \<open>utf8\<close> is
  \<open>str.encode("utf-8")\<close>.
\<close>

type_synonym py_str = "nat list"

definition py :: "string \<Rightarrow> py_str" where
  "py s = map of_char s"

definition utf8_cp :: "nat \<Rightarrow> nat list" where
  "utf8_cp c =
     (if c < 128 then [c]
      else if c < 2048 then [192 + c div 64, 128 + c mod 64]
      else if c < 65536 then [224 + c div 4096, 128 + (c div 64) mod 64, 128 + c mod 64]
      else [240 + c div 262144, 128 + (c div 4096) mod 64, 128 + (c div 64) mod 64,
            128 + c mod 64])"

definition utf8 :: "py_str \<Rightarrow> nat list" where
  "utf8 s = concat (map utf8_cp s)"

text \<open>
  \<open>str.upper\<close> maps each code point on its own. On ASCII it turns \<open>a\<close>..\<open>z\<close> into
  \<open>A\<close>..\<open>Z\<close> and leaves the rest alone. Beyond ASCII it follows the case mapping of the
  Unicode database, which may replace one code point by several; that table belongs to
  the interpreter, so it is a parameter (\<open>special\<close>).
\<close>

definition upper_cp :: "(nat \<Rightarrow> py_str) \<Rightarrow> nat \<Rightarrow> py_str" where
  "upper_cp special c =
     (if c < 128 then (if 97 \<le> c \<and> c \<le> 122 then [c - 32] else [c]) else special c)"

definition upper :: "(nat \<Rightarrow> py_str) \<Rightarrow> py_str \<Rightarrow> py_str" where
  "upper special s = concat (map (upper_cp special) s)"

text \<open>
  The values \<open>json.loads\<close> returns. A finite number is given by its integer part (what
  \<open>int\<close> makes of it); \<open>JInf\<close> is an infinity (\<open>1e999\<close>, \<open>Infinity\<close>) and \<open>JNaN\<close> a
  not-a-number, both of which \<open>json.loads\<close> accepts.
\<close>

datatype json = JNull | JBool bool | JNum int | JInf | JNaN | JStr py_str
  | JList "json list" | JDict "(py_str \<times> json) list"

text \<open>
  The exceptions. \<open>HTTPException\<close> carries the status code and the detail.
  \<open>RequestValidationError\<close> is what the framework answers (422) when a request does not
  validate against the handler's parameters; \<open>ValidationError\<close> is pydantic's exception
  when a model is constructed inside a handler from values that break its constraints.
  \<open>JWTError\<close> and its subclasses \<open>ExpiredSignatureError\<close> and \<open>JWTClaimsError\<close> are
  python-jose's; \<open>ValueError\<close>, \<open>TypeError\<close> and \<open>OverflowError\<close> are the built-in ones
  that \<open>int\<close> raises. An exception other than \<open>HTTPException\<close> and
  \<open>RequestValidationError\<close> that leaves a handler is answered with status 500.
\<close>

datatype error = HTTPException nat py_str | RequestValidationError | ValidationError
  | JWTError | ExpiredSignatureError | JWTClaimsError
  | ValueError | TypeError | OverflowError

text \<open>\<open>isinstance(err, JWTError)\<close>, the test of \<open>except JWTError\<close>.\<close>

fun is_JWTError :: "error \<Rightarrow> bool" where
  "is_JWTError JWTError = True"
| "is_JWTError ExpiredSignatureError = True"
| "is_JWTError JWTClaimsError = True"
| "is_JWTError err = False"

text \<open>
  \<open>int(v)\<close> on a JSON value: a number is truncated, a boolean is 0 or 1, a string is
  parsed (\<open>int_of_str\<close> is Python's parser of integer literals, \<open>None\<close> where it raises
  \<open>ValueError\<close>), a not-a-number raises \<open>ValueError\<close>, an infinity \<open>OverflowError\<close>, and
  \<open>None\<close>, a list and a dictionary raise \<open>TypeError\<close>.
\<close>

fun py_int :: "(py_str \<Rightarrow> int option) \<Rightarrow> json \<Rightarrow> error + int" where
  "py_int int_of_str JNull = Inl TypeError"
| "py_int int_of_str (JBool b) = Inr (if b then 1 else 0)"
| "py_int int_of_str (JNum n) = Inr n"
| "py_int int_of_str JInf = Inl OverflowError"
| "py_int int_of_str JNaN = Inl ValueError"
| "py_int int_of_str (JStr s) = (case int_of_str s of None \<Rightarrow> Inl ValueError | Some n \<Rightarrow> Inr n)"
| "py_int int_of_str (JList xs) = Inl TypeError"
| "py_int int_of_str (JDict kvs) = Inl TypeError"

section \<open>Configuration\<close>

text \<open>
  What the process takes from outside the repository: the signing secret (read from the
  environment once, at start), the Unicode case mapping, the password hash of
  \<open>pwd_context\<close>, whose random salt is its first argument, the hash function SHA-256,
  the signing input python-jose writes for a dictionary of claims (the base64url text of
  the header and of the claims' JSON), and Python's parser of integer literals.
\<close>

record env =
  SECRET_KEY :: py_str
  unicode_upper :: "nat \<Rightarrow> py_str"
  pwd_context_hash :: "nat \<Rightarrow> py_str \<Rightarrow> py_str"
  sha256 :: "nat list \<Rightarrow> nat list"
  jws_signing_input :: "(py_str \<Rightarrow> json option) \<Rightarrow> nat list"
  int_str :: "py_str \<Rightarrow> int option"

definition ACCESS_TOKEN_EXPIRE_MINUTES :: int where
  "ACCESS_TOKEN_EXPIRE_MINUTES = 60 * 12"

section \<open>Schemas\<close>

type_synonym object_id = nat

record user =
  name :: py_str
  email :: py_str
  password_hash :: py_str
  created_at :: "int option"
  is_active :: bool

record flight_plan_in =
  callsign :: "py_str option"
  origin :: py_str
  destination :: py_str
  alternates :: "py_str list"
  route :: "py_str option"
  departure_time :: int
  cruise_altitude :: "py_str option"
  aircraft_type :: "py_str option"

text \<open>\<open>FlightPlan\<close> has the fields of \<open>FlightPlanIn\<close> and the owner's id.\<close>

record flight_plan = flight_plan_in +
  user_id :: object_id

record briefing =
  b_user_id :: object_id
  flight_plan_id :: object_id
  summary :: py_str
  hazards :: "json list"
  risk_level :: py_str
  metar :: json
  taf :: json
  notams :: "json list"
  pireps :: "json list"
  b_alternates :: "json list"
  overlays :: json
  b_created_at :: "int option"


text \<open>
  The length constraints of the two flight-plan models
  (\<open>Field(..., min_length=3, max_length=4)\<close> on \<open>origin\<close> and \<open>destination\<close>; none on
  \<open>alternates\<close>). \<open>FlightPlanIn\<close> validates the request body, \<open>FlightPlan\<close> the document
  built by the handler.
\<close>

definition icao_len_ok :: "py_str \<Rightarrow> bool" where
  "icao_len_ok s = (3 \<le> length s \<and> length s \<le> 4)"

definition FlightPlanIn :: "flight_plan_in \<Rightarrow> error + flight_plan_in" where
  "FlightPlanIn body =
     (if icao_len_ok (origin body) \<and> icao_len_ok (destination body) then Inr body
      else Inl RequestValidationError)"

definition FlightPlan :: "flight_plan \<Rightarrow> error + flight_plan" where
  "FlightPlan doc =
     (if icao_len_ok (origin doc) \<and> icao_len_ok (destination doc) then Inr doc
      else Inl ValidationError)"

section \<open>Document store\<close>

text \<open>
  Modelled from the spec: the module \<open>database\<close> (\<open>create_document\<close>, \<open>get_documents\<close>,
  \<open>db\<close>) is not among the sources. The spec gives its contract:
  \<open>insert(collection, record) -> id\<close> and
  \<open>query(collection, filter, limit?) -> sequence of records\<close>, filters being equality
  matches on fields, over the collections \<open>user\<close>, \<open>flightplan\<close> and \<open>briefing\<close>.
  A collection is the list of its documents in insertion order, each with its \<open>_id\<close>;
  ids are generated from a counter. An id and its string form (\<open>str(_id)\<close>) are
  identified.
\<close>

record db =
  coll_user :: "(object_id \<times> user) list"
  coll_flightplan :: "(object_id \<times> flight_plan) list"
  coll_briefing :: "(object_id \<times> briefing) list"
  next_id :: object_id

text \<open>
  Modelled from the spec: \<open>get_documents\<close> of the absent module \<open>database\<close>, the
  spec's \<open>query\<close>: the documents of the collection that match the filter, in the
  store's order, at most \<open>limit\<close> of them when a limit is given. The filter, a
  dictionary of field equalities in the source, is the predicate it stands for.
\<close>

definition get_documents ::
  "(object_id \<times> 'a) list \<Rightarrow> (object_id \<times> 'a \<Rightarrow> bool) \<Rightarrow> nat option \<Rightarrow> (object_id \<times> 'a) list" where
  "get_documents coll flt limit =
     (case limit of None \<Rightarrow> filter flt coll | Some n \<Rightarrow> take n (filter flt coll))"


text \<open>
  Modelled from the spec: \<open>create_document\<close> of the absent module \<open>database\<close> on the
  collection \<open>flightplan\<close>.
\<close>

definition create_document_flightplan :: "db \<Rightarrow> flight_plan \<Rightarrow> object_id \<times> db" where
  "create_document_flightplan d p =
     (next_id d, d\<lparr>coll_flightplan := coll_flightplan d @ [(next_id d, p)], next_id := next_id d + 1\<rparr>)"

text \<open>
  Modelled from the spec: \<open>create_document\<close> of the absent module \<open>database\<close> on the
  collection \<open>briefing\<close>.
\<close>

definition create_document_briefing :: "db \<Rightarrow> briefing \<Rightarrow> object_id \<times> db" where
  "create_document_briefing d b =
     (next_id d, d\<lparr>coll_briefing := coll_briefing d @ [(next_id d, b)], next_id := next_id d + 1\<rparr>)"

section \<open>Tokens\<close>

text \<open>
  The claims of a token are a dictionary from claim names to JSON values. A token is a
  string: \<open>Jws m claims sig\<close> is a compact serialisation with an HS256 header, the
  signing input \<open>m\<close> (header and payload as transmitted), the dictionary \<open>claims\<close> that
  the payload decodes to, and the signature bytes \<open>sig\<close>; \<open>Opaque s\<close> is any other
  string (\<open>Opaque []\<close> the empty one), for all of which \<open>jws.verify\<close> or the decoding of
  the payload raises \<open>JWTError\<close>. Times are whole seconds since the epoch, the resolution
  at which \<open>jwt.decode\<close> compares.
\<close>

type_synonym claims = "py_str \<Rightarrow> json option"

datatype token = Jws "nat list" claims "nat list" | Opaque py_str

text \<open>
  HMAC (RFC 2104) over the hash \<open>H\<close> with blocks of 64 bytes: a key longer than a block
  is hashed first, and the key is padded with zero bytes to the block.
\<close>

definition key_block :: "(nat list \<Rightarrow> nat list) \<Rightarrow> nat list \<Rightarrow> nat list" where
  "key_block H k =
     (let k' = (if 64 < length k then H k else k) in k' @ replicate (64 - length k') 0)"

definition hmac :: "(nat list \<Rightarrow> nat list) \<Rightarrow> nat list \<Rightarrow> nat list \<Rightarrow> nat list" where
  "hmac H k m =
     (let b = key_block H k
      in H (map (\<lambda>x. x XOR 92) b @ H (map (\<lambda>x. x XOR 54) b @ m)))"

text \<open>\<open>jwt.encode(claims, key, algorithm="HS256")\<close>.\<close>

definition jwt_encode :: "env \<Rightarrow> claims \<Rightarrow> py_str \<Rightarrow> token" where
  "jwt_encode e payload key =
     Jws (jws_signing_input e payload) payload
       (hmac (sha256 e) (utf8 key) (jws_signing_input e payload))"

text \<open>
  The claim checks of python-jose, with \<open>jwt.decode\<close>'s default options and no audience,
  issuer, subject or access token given. Each returns the exception it raises, if any.
  \<open>iat\<close>, \<open>nbf\<close> and \<open>exp\<close> are read with \<open>int\<close> under \<open>except ValueError\<close>, which turns
  a \<open>ValueError\<close> into \<open>JWTClaimsError\<close> and lets \<open>TypeError\<close> and \<open>OverflowError\<close> pass.
\<close>

definition claim_int :: "env \<Rightarrow> claims \<Rightarrow> py_str \<Rightarrow> error + int option" where
  "claim_int e payload c =
     (case payload c of
        None \<Rightarrow> Inr None
      | Some v \<Rightarrow>
          (case py_int (int_str e) v of
             Inl err \<Rightarrow> Inl (if err = ValueError then JWTClaimsError else err)
           | Inr n \<Rightarrow> Inr (Some n)))"

definition validate_iat :: "env \<Rightarrow> claims \<Rightarrow> error option" where
  "validate_iat e payload =
     (case claim_int e payload (py ''iat'') of Inl err \<Rightarrow> Some err | Inr x \<Rightarrow> None)"

text \<open>\<open>if nbf > now: raise JWTClaimsError\<close>.\<close>

definition validate_nbf :: "env \<Rightarrow> int \<Rightarrow> claims \<Rightarrow> error option" where
  "validate_nbf e now payload =
     (case claim_int e payload (py ''nbf'') of
        Inl err \<Rightarrow> Some err
      | Inr None \<Rightarrow> None
      | Inr (Some nbf) \<Rightarrow> (if now < nbf then Some JWTClaimsError else None))"

text \<open>\<open>if exp < now: raise ExpiredSignatureError\<close>.\<close>

definition validate_exp :: "env \<Rightarrow> int \<Rightarrow> claims \<Rightarrow> error option" where
  "validate_exp e now payload =
     (case claim_int e payload (py ''exp'') of
        Inl err \<Rightarrow> Some err
      | Inr None \<Rightarrow> None
      | Inr (Some x) \<Rightarrow> (if x < now then Some ExpiredSignatureError else None))"

text \<open>
  An \<open>aud\<close> claim never holds the audience \<open>None\<close> and an \<open>at_hash\<close> claim cannot be
  compared without an access token: either is refused whatever its value.
\<close>

definition validate_aud :: "claims \<Rightarrow> error option" where
  "validate_aud payload =
     (case payload (py ''aud'') of None \<Rightarrow> None | Some v \<Rightarrow> Some JWTClaimsError)"

definition validate_at_hash :: "claims \<Rightarrow> error option" where
  "validate_at_hash payload =
     (case payload (py ''at_hash'') of None \<Rightarrow> None | Some v \<Rightarrow> Some JWTClaimsError)"

text \<open>\<open>sub\<close> and \<open>jti\<close>, where present, must be strings.\<close>

fun is_str :: "json \<Rightarrow> bool" where
  "is_str (JStr s) = True"
| "is_str v = False"

definition validate_sub :: "claims \<Rightarrow> error option" where
  "validate_sub payload =
     (case payload (py ''sub'') of
        None \<Rightarrow> None
      | Some v \<Rightarrow> (if is_str v then None else Some JWTClaimsError))"

definition validate_jti :: "claims \<Rightarrow> error option" where
  "validate_jti payload =
     (case payload (py ''jti'') of
        None \<Rightarrow> None
      | Some v \<Rightarrow> (if is_str v then None else Some JWTClaimsError))"

text \<open>The checks run in this order; the first exception ends them.\<close>

fun first_raise :: "error option list \<Rightarrow> error option" where
  "first_raise [] = None"
| "first_raise (Some err # xs) = Some err"
| "first_raise (None # xs) = first_raise xs"

definition validate_claims :: "env \<Rightarrow> int \<Rightarrow> claims \<Rightarrow> error option" where
  "validate_claims e now payload =
     first_raise
       [validate_iat e payload, validate_nbf e now payload, validate_exp e now payload,
        validate_aud payload, validate_sub payload, validate_jti payload,
        validate_at_hash payload]"

text \<open>
  \<open>jwt.decode(token, key, algorithms=["HS256"])\<close>: the signature is compared with the
  HMAC of the signing input under the key, then the claims are checked.
\<close>

fun jwt_decode :: "env \<Rightarrow> token \<Rightarrow> py_str \<Rightarrow> int \<Rightarrow> error + claims" where
  "jwt_decode e (Opaque s) key now = Inl JWTError"
| "jwt_decode e (Jws m payload sig) key now =
     (if sig \<noteq> hmac (sha256 e) (utf8 key) m then Inl JWTError
      else case validate_claims e now payload of
             Some err \<Rightarrow> Inl err
           | None \<Rightarrow> Inr payload)"

text \<open>
  \<open>datetime.utcnow().timestamp()\<close> at the instant \<open>t\<close> in a process whose local zone is
  \<open>offset\<close> seconds east of UTC: \<open>utcnow\<close> gives the UTC wall clock as a naive datetime,
  and \<open>timestamp\<close> reads a naive datetime as local time.
\<close>

definition utcnow_timestamp :: "int \<Rightarrow> int \<Rightarrow> int" where
  "utcnow_timestamp offset t = t - offset"

text \<open>
  \<open>create_access_token\<close>: \<open>reading\<close> is the value of \<open>datetime.utcnow().timestamp()\<close>
  that the function takes.
\<close>

definition create_access_token :: "env \<Rightarrow> int \<Rightarrow> claims \<Rightarrow> token" where
  "create_access_token e reading data =
     (let to_encode = data(py ''exp'' \<mapsto> JNum (reading + ACCESS_TOKEN_EXPIRE_MINUTES * 60))
      in jwt_encode e to_encode (SECRET_KEY e))"

text \<open>\<open>payload.get("sub")\<close>: \<open>None\<close> when the claim is absent or null.\<close>

definition payload_get_sub :: "claims \<Rightarrow> json option" where
  "payload_get_sub payload =
     (case payload (py ''sub'') of None \<Rightarrow> None | Some JNull \<Rightarrow> None | Some v \<Rightarrow> Some v)"

text \<open>
  \<open>get_current_user\<close>; \<open>now\<close> is the clock of \<open>jwt.decode\<close>. \<open>not token\<close> holds of
  \<open>None\<close> and of the empty string. \<open>except JWTError\<close> catches the exceptions of that
  class; any other leaves the function. The filter \<open>{"email": email}\<close> matches the users
  whose email equals the subject.
\<close>

fun is_empty :: "token \<Rightarrow> bool" where
  "is_empty (Opaque s) = (s = [])"
| "is_empty (Jws m payload sig) = False"

fun get_current_user :: "env \<Rightarrow> int \<Rightarrow> db \<Rightarrow> token option \<Rightarrow> error + (object_id \<times> user)" where
  "get_current_user e now d None = Inl (HTTPException 401 (py ''Not authenticated''))"
| "get_current_user e now d (Some token) =
     (if is_empty token then Inl (HTTPException 401 (py ''Not authenticated''))
      else case jwt_decode e token (SECRET_KEY e) now of
             Inl err \<Rightarrow>
               (if is_JWTError err then Inl (HTTPException 401 (py ''Invalid token''))
                else Inl err)
           | Inr payload \<Rightarrow>
               (case payload_get_sub payload of
                  None \<Rightarrow> Inl (HTTPException 401 (py ''Invalid token''))
                | Some subject \<Rightarrow>
                    (case get_documents (coll_user d) (\<lambda>(i, u). JStr (email u) = subject) (Some 1) of
                       [] \<Rightarrow> Inl (HTTPException 401 (py ''User not found''))
                     | u # us \<Rightarrow> Inr u)))"

section \<open>Handlers\<close>




definition create_flight_plan ::
  "env \<Rightarrow> int \<Rightarrow> db \<Rightarrow> flight_plan_in \<Rightarrow> token \<Rightarrow> (error + object_id) \<times> db" where
  "create_flight_plan e now d fp token =
     (case get_current_user e now d (Some token) of
        Inl err \<Rightarrow> (Inl err, d)
      | Inr (uid, u) \<Rightarrow>
          (case FlightPlan
                  \<lparr>callsign = callsign fp,
                   origin = upper (unicode_upper e) (origin fp),
                   destination = upper (unicode_upper e) (destination fp),
                   alternates = map (upper (unicode_upper e)) (alternates fp),
                   route = route fp,
                   departure_time = departure_time fp,
                   cruise_altitude = cruise_altitude fp,
                   aircraft_type = aircraft_type fp,
                   user_id = uid\<rparr> of
             Inl err \<Rightarrow> (Inl err, d)
           | Inr doc \<Rightarrow>
               (let (inserted_id, d') = create_document_flightplan d doc
                in (Inr inserted_id, d'))))"

text \<open>
  The route \<open>POST /flightplan\<close>: the framework validates the body against
  \<open>FlightPlanIn\<close> and calls the handler only with a valid one.
\<close>

definition post_flightplan ::
  "env \<Rightarrow> int \<Rightarrow> db \<Rightarrow> flight_plan_in \<Rightarrow> token \<Rightarrow> (error + object_id) \<times> db" where
  "post_flightplan e now d body token =
     (case FlightPlanIn body of
        Inl err \<Rightarrow> (Inl err, d)
      | Inr fp \<Rightarrow> create_flight_plan e now d fp token)"

text \<open>\<open>dashboard\<close> only reads the store; it returns the user summary and the plans.\<close>

definition dashboard ::
  "env \<Rightarrow> int \<Rightarrow> db \<Rightarrow> token \<Rightarrow> error + (py_str \<times> py_str) \<times> (object_id \<times> flight_plan) list" where
  "dashboard e now d token =
     (case get_current_user e now d (Some token) of
        Inl err \<Rightarrow> Inl err
      | Inr (uid, u) \<Rightarrow>
          (let plans = get_documents (coll_flightplan d) (\<lambda>(i, p). user_id p = uid) (Some 20)
           in Inr ((name u, email u), plans)))"

definition briefing_summary :: py_str where
  "briefing_summary =
     py ''Winds aloft moderate, isolated TS enroute, bases 3k ft, '' @
     py ''VFR marginal near destination after 21Z; fuel/alt review advised.''"

text \<open>
  \<open>generate_briefing\<close>: the filter \<open>{"_id": {"$eq": ...}}\<close> matches the plan with the
  requested id (\<open>_ensure_objectid\<close>, of the absent module \<open>database\<close>, turns the
  requested string into an id; the two are identified). The response is
  \<open>(id, summary, risk)\<close>.
\<close>

definition generate_briefing ::
  "env \<Rightarrow> int \<Rightarrow> db \<Rightarrow> object_id \<Rightarrow> token \<Rightarrow> (error + object_id \<times> py_str \<times> py_str) \<times> db" where
  "generate_briefing e now d req_flight_plan_id token =
     (case get_current_user e now d (Some token) of
        Inl err \<Rightarrow> (Inl err, d)
      | Inr (uid, u) \<Rightarrow>
          (case get_documents (coll_flightplan d) (\<lambda>(i, p). i = req_flight_plan_id) None of
             [] \<Rightarrow> (Inl (HTTPException 404 (py ''Flight plan not found'')), d)
           | plan # plans \<Rightarrow>
               (let b = \<lparr>b_user_id = uid,
                         flight_plan_id = req_flight_plan_id,
                         summary = briefing_summary,
                         hazards = [JDict [(py ''type'', JStr (py ''TS'')),
                                           (py ''severity'', JStr (py ''MOD'')),
                                           (py ''location'', JStr (py ''enroute''))]],
                         risk_level = py ''MEDIUM'',
                         metar = JDict [(py ''origin'', JStr (py ''METAR KJFK 121651Z ...''))],
                         taf = JDict [(py ''destination'', JStr (py ''TAF KLAX 121720Z ...''))],
                         notams = [JDict [(py ''id'', JStr (py ''A1234'')),
                                          (py ''text'', JStr (py ''RWY 12/30 closed''))]],
                         pireps = [JDict [(py ''loc'', JStr (py ''DCT'')),
                                          (py ''wx'', JStr (py ''MOD TURB FL180''))]],
                         b_alternates = [JDict [(py ''icao'', JStr (py ''KBUR'')),
                                                (py ''category'', JStr (py ''Nearby''))]],
                         overlays = JDict [(py ''route'',
                                            JDict [(py ''type'', JStr (py ''LineString'')),
                                                   (py ''coordinates'', JList [])])],
                         b_created_at = None\<rparr>;
                    (inserted_id, d') = create_document_briefing d b
                in (Inr (inserted_id, summary b, risk_level b), d'))))"

section \<open>Classes of tokens\<close>


fun signature_verifies :: "env \<Rightarrow> py_str \<Rightarrow> token \<Rightarrow> bool" where
  "signature_verifies e key (Jws m payload sig) = (sig = hmac (sha256 e) (utf8 key) m)"
| "signature_verifies e key (Opaque s) = False"


fun token_claims :: "token \<Rightarrow> claims" where
  "token_claims (Jws m payload sig) = payload"
| "token_claims (Opaque s) = Map.empty"

text \<open>The integer \<open>int\<close> reads in a claim, if the claim is present and \<open>int\<close> returns.\<close>

definition reads_as :: "env \<Rightarrow> claims \<Rightarrow> py_str \<Rightarrow> int option" where
  "reads_as e payload c =
     (case payload c of
        None \<Rightarrow> None
      | Some v \<Rightarrow> (case py_int (int_str e) v of Inl err \<Rightarrow> None | Inr n \<Rightarrow> Some n))"

text \<open>A token is expired when its \<open>exp\<close> lies before the current time.\<close>

definition expired :: "env \<Rightarrow> int \<Rightarrow> claims \<Rightarrow> bool" where
  "expired e now payload =
     (case reads_as e payload (py ''exp'') of None \<Rightarrow> False | Some x \<Rightarrow> x < now)"

definition not_yet_valid :: "env \<Rightarrow> int \<Rightarrow> claims \<Rightarrow> bool" where
  "not_yet_valid e now payload =
     (case reads_as e payload (py ''nbf'') of None \<Rightarrow> False | Some n \<Rightarrow> now < n)"

text \<open>
  A claim that \<open>int\<close> refuses with \<open>ValueError\<close> (a string that is no integer literal, a
  not-a-number), and one on which \<open>int\<close> raises \<open>TypeError\<close> or \<open>OverflowError\<close> (null, a
  list, a dictionary, an infinity).
\<close>

definition not_an_integer :: "env \<Rightarrow> claims \<Rightarrow> py_str \<Rightarrow> bool" where
  "not_an_integer e payload c =
     (case payload c of None \<Rightarrow> False | Some v \<Rightarrow> py_int (int_str e) v = Inl ValueError)"

definition breaks_int :: "env \<Rightarrow> claims \<Rightarrow> py_str \<Rightarrow> bool" where
  "breaks_int e payload c =
     (case payload c of
        None \<Rightarrow> False
      | Some v \<Rightarrow> py_int (int_str e) v = Inl TypeError \<or> py_int (int_str e) v = Inl OverflowError)"

definition time_claims_readable :: "env \<Rightarrow> claims \<Rightarrow> bool" where
  "time_claims_readable e payload =
     (\<not> breaks_int e payload (py ''iat'') \<and> \<not> breaks_int e payload (py ''nbf'')
      \<and> \<not> breaks_int e payload (py ''exp''))"

definition not_a_string :: "claims \<Rightarrow> py_str \<Rightarrow> bool" where
  "not_a_string payload c = (case payload c of None \<Rightarrow> False | Some v \<Rightarrow> \<not> is_str v)"

text \<open>The claim checks other than the expiry that end in \<open>JWTClaimsError\<close>.\<close>

definition claim_rejected :: "env \<Rightarrow> int \<Rightarrow> claims \<Rightarrow> bool" where
  "claim_rejected e now payload =
     (not_an_integer e payload (py ''iat'') \<or> not_an_integer e payload (py ''nbf'')
      \<or> not_yet_valid e now payload \<or> not_an_integer e payload (py ''exp'')
      \<or> payload (py ''aud'') \<noteq> None \<or> not_a_string payload (py ''sub'')
      \<or> not_a_string payload (py ''jti'') \<or> payload (py ''at_hash'') \<noteq> None)"

definition subject :: "claims \<Rightarrow> py_str option" where
  "subject payload = (case payload (py ''sub'') of Some (JStr s) \<Rightarrow> Some s | _ \<Rightarrow> None)"

definition users_with_email :: "db \<Rightarrow> py_str \<Rightarrow> (object_id \<times> user) list" where
  "users_with_email d s = filter (\<lambda>(i, u). email u = s) (coll_user d)"

definition plans_of_user :: "db \<Rightarrow> object_id \<Rightarrow> (object_id \<times> flight_plan) list" where
  "plans_of_user d uid = filter (\<lambda>(i, p). user_id p = uid) (coll_flightplan d)"

text \<open>
  The claims of an access token as the service issues them, a string subject and an
  expiry, and the token that carries them signed with \<open>key\<close>.
\<close>

definition access_claims :: "py_str \<Rightarrow> int \<Rightarrow> claims" where
  "access_claims s x = [py ''sub'' \<mapsto> JStr s, py ''exp'' \<mapsto> JNum x]"

definition token_for :: "env \<Rightarrow> py_str \<Rightarrow> int \<Rightarrow> py_str \<Rightarrow> token" where
  "token_for e s x key = jwt_encode e (access_claims s x) key"

section \<open>Example data\<close>

text \<open>
  The Unicode upper-casing on the Latin-1 range (U+00DF, the sharp s, becomes \<open>SS\<close>);
  the examples use no code point beyond it. \<open>example_hash\<close> stands in for bcrypt,
  \<open>example_sha\<close> for SHA-256 (32 bytes of output) and \<open>example_signing_input\<close> for the
  serialisation of the claims; \<open>example_int_str\<close> reads the strings of decimal digits.
\<close>

definition latin1_upper :: "nat \<Rightarrow> py_str" where
  "latin1_upper c =
     (if c = 223 then [83, 83]
      else if c = 181 then [924]
      else if c = 255 then [376]
      else if 224 \<le> c \<and> c \<le> 254 \<and> c \<noteq> 247 then [c - 32]
      else [c])"

definition example_hash :: "nat \<Rightarrow> py_str \<Rightarrow> py_str" where
  "example_hash salt pw = salt # rev pw"

definition example_sha :: "nat list \<Rightarrow> nat list" where
  "example_sha m = take 32 (m @ replicate 32 0)"

definition example_signing_input :: "claims \<Rightarrow> nat list" where
  "example_signing_input payload =
     (case payload (py ''sub'') of Some (JStr s) \<Rightarrow> utf8 s | _ \<Rightarrow> [])"

definition example_int_str :: "py_str \<Rightarrow> int option" where
  "example_int_str s =
     (if s \<noteq> [] \<and> list_all (\<lambda>c. 48 \<le> c \<and> c \<le> 57) s
      then Some (foldl (\<lambda>n c. 10 * n + int (c - 48)) 0 s) else None)"

definition env0 :: env where
  "env0 = \<lparr>SECRET_KEY = py ''dev-secret'', unicode_upper = latin1_upper,
           pwd_context_hash = example_hash, sha256 = example_sha,
           jws_signing_input = example_signing_input, int_str = example_int_str\<rparr>"

definition alice :: user where
  "alice = \<lparr>name = py ''Alice'', email = py ''alice@example.com'',
            password_hash = example_hash 7 (py ''wonderland''), created_at = None,
            is_active = True\<rparr>"

definition bob :: user where
  "bob = \<lparr>name = py ''Bob'', email = py ''bob@example.com'',
          password_hash = example_hash 9 (py ''builder''), created_at = None,
          is_active = True\<rparr>"

definition body0 :: flight_plan_in where
  "body0 = \<lparr>callsign = Some (py ''N123AB''), origin = py ''kjfk'', destination = py ''klax'',
            alternates = [py ''kbur'', py ''x'', py ''ontario-intl''], route = None,
            departure_time = 1700000000, cruise_altitude = Some (py ''FL350''),
            aircraft_type = None\<rparr>"

definition plan_alice :: flight_plan where
  "plan_alice = \<lparr>callsign = None, origin = py ''KSFO'', destination = py ''KSEA'',
                 alternates = [], route = None, departure_time = 1700000000,
                 cruise_altitude = None, aircraft_type = None, user_id = 1\<rparr>"

text \<open>Alice (id 1) and Bob (id 2) are registered; Alice owns the only plan (id 3).\<close>

definition db0 :: db where
  "db0 = \<lparr>coll_user = [(1, alice), (2, bob)], coll_flightplan = [(3, plan_alice)],
          coll_briefing = [], next_id = 4\<rparr>"

text \<open>The request body \<open>body0\<close> with three times U+00DF (the sharp s) as origin.\<close>

definition body_sharp_s :: flight_plan_in where
  "body_sharp_s = body0\<lparr>origin := [223, 223, 223]\<rparr>"



text \<open>Tokens of Alice and Bob, signed with the secret of \<open>env0\<close>, expiring at 100.\<close>

definition alice_token :: token where
  "alice_token = token_for env0 (py ''alice@example.com'') 100 (py ''dev-secret'')"

definition bob_token :: token where
  "bob_token = token_for env0 (py ''bob@example.com'') 100 (py ''dev-secret'')"








section \<open>The claim checks\<close>

declare get_current_user.simps [simp del]
declare jwt_decode.simps [simp del]

lemma first_raise_None: "(first_raise xs = None) = (\<forall>x \<in> set xs. x = None)"
  by (induction xs rule: first_raise.induct) auto


lemma py_int_cases:
  "(\<exists>n. py_int P v = Inr n) \<or> py_int P v = Inl ValueError \<or> py_int P v = Inl TypeError
     \<or> py_int P v = Inl OverflowError"
  by (cases v) (auto split: option.splits)

lemma claim_int_cases:
  "claim_int e p c =
     (if breaks_int e p c then Inl (if (case p c of Some v \<Rightarrow> py_int (int_str e) v = Inl TypeError | None \<Rightarrow> False) then TypeError else OverflowError)
      else if not_an_integer e p c then Inl JWTClaimsError
      else Inr (reads_as e p c))"
proof (cases "p c")
  case None
  then show ?thesis by (simp add: claim_int_def breaks_int_def not_an_integer_def reads_as_def)
next
  case (Some v)
  with py_int_cases [of "int_str e" v] show ?thesis
    by (auto simp: claim_int_def breaks_int_def not_an_integer_def reads_as_def)
qed

lemma validate_iat_None:
  "(validate_iat e p = None) = (\<not> breaks_int e p (py ''iat'') \<and> \<not> not_an_integer e p (py ''iat''))"
  by (simp add: validate_iat_def claim_int_cases)

lemma validate_nbf_None:
  "(validate_nbf e now p = None) =
     (\<not> breaks_int e p (py ''nbf'') \<and> \<not> not_an_integer e p (py ''nbf'') \<and> \<not> not_yet_valid e now p)"
  by (auto simp: validate_nbf_def claim_int_cases not_yet_valid_def split: option.splits)

lemma validate_exp_None:
  "(validate_exp e now p = None) =
     (\<not> breaks_int e p (py ''exp'') \<and> \<not> not_an_integer e p (py ''exp'') \<and> \<not> expired e now p)"
  by (auto simp: validate_exp_def claim_int_cases expired_def split: option.splits)

lemma validate_aud_None: "(validate_aud p = None) = (p (py ''aud'') = None)"
  by (simp add: validate_aud_def split: option.splits)

lemma validate_at_hash_None: "(validate_at_hash p = None) = (p (py ''at_hash'') = None)"
  by (simp add: validate_at_hash_def split: option.splits)

lemma validate_sub_None: "(validate_sub p = None) = (\<not> not_a_string p (py ''sub''))"
  by (simp add: validate_sub_def not_a_string_def split: option.splits)

lemma validate_jti_None: "(validate_jti p = None) = (\<not> not_a_string p (py ''jti''))"
  by (simp add: validate_jti_def not_a_string_def split: option.splits)

lemma validate_claims_None:
  "(validate_claims e now p = None) =
     (time_claims_readable e p \<and> \<not> expired e now p \<and> \<not> claim_rejected e now p)"
  unfolding validate_claims_def first_raise_None
  by (auto simp: validate_iat_None validate_nbf_None validate_exp_None validate_aud_None
      validate_at_hash_None validate_sub_None validate_jti_None time_claims_readable_def
      claim_rejected_def)





text \<open>When \<open>jwt.decode\<close> returns the claims, and what it raises otherwise.\<close>

lemma jwt_decode_Inr:
  "(jwt_decode e tok key now = Inr p) =
     (signature_verifies e key tok \<and> token_claims tok = p \<and> time_claims_readable e p
      \<and> \<not> expired e now p \<and> \<not> claim_rejected e now p)"
proof (cases tok)
  case (Opaque s)
  then show ?thesis by (simp add: jwt_decode.simps)
next
  case (Jws m q sig)
  then show ?thesis
    using validate_claims_None [of e now q]
    by (cases "validate_claims e now q") (auto simp: jwt_decode.simps)
qed


section \<open>User resolution\<close>

lemma payload_get_sub_subject:
  "\<not> not_a_string p (py ''sub'') \<Longrightarrow> payload_get_sub p = map_option JStr (subject p)"
  by (auto simp: payload_get_sub_def subject_def not_a_string_def split: option.splits json.splits)

lemma filter_email_JStr:
  "(\<lambda>(i, u). JStr (email u) = JStr s) = (\<lambda>(i, u). email u = s)"
  by auto

text \<open>Resolution of a token that \<open>jwt.decode\<close> accepts.\<close>

lemma get_current_user_accepted:
  assumes "jwt_decode e tok (SECRET_KEY e) now = Inr p"
  shows "get_current_user e now d (Some tok) =
     (case subject p of
        None \<Rightarrow> Inl (HTTPException 401 (py ''Invalid token''))
      | Some s \<Rightarrow>
          (case users_with_email d s of
             [] \<Rightarrow> Inl (HTTPException 401 (py ''User not found''))
           | u # us \<Rightarrow> Inr u))"
proof -
  from assms have c: "\<not> claim_rejected e now p" and t: "token_claims tok = p"
    by (simp_all add: jwt_decode_Inr)
  then have s: "payload_get_sub p = map_option JStr (subject p)"
    by (intro payload_get_sub_subject) (simp add: claim_rejected_def)
  from assms have ne: "\<not> is_empty tok" by (cases tok) (auto simp: jwt_decode.simps)
  show ?thesis
    using assms ne
    by (simp add: get_current_user.simps s get_documents_def users_with_email_def
        filter_email_JStr split: option.splits list.splits)
qed

text \<open>
  A \<open>JWTError\<close> of \<open>jwt.decode\<close> is answered 401; any other exception leaves
  \<open>get_current_user\<close> as it is.
\<close>

lemma get_current_user_refused:
  assumes "jwt_decode e tok (SECRET_KEY e) now = Inl err" and "is_JWTError err"
  shows "get_current_user e now d (Some tok) =
     Inl (HTTPException 401 (if is_empty tok then py ''Not authenticated'' else py ''Invalid token''))"
  using assms by (simp add: get_current_user.simps)

lemma get_current_user_uncaught:
  assumes "jwt_decode e tok (SECRET_KEY e) now = Inl err" and "\<not> is_JWTError err"
  shows "get_current_user e now d (Some tok) = Inl err"
proof -
  from assms have "\<not> is_empty tok" by (cases tok) (auto simp: jwt_decode.simps)
  with assms show ?thesis by (simp add: get_current_user.simps)
qed

section \<open>Issued tokens\<close>

lemma twelve_hours: "ACCESS_TOKEN_EXPIRE_MINUTES * 60 = 43200"
  by (simp add: ACCESS_TOKEN_EXPIRE_MINUTES_def)

lemma create_access_token_eq:
  "create_access_token e reading [py ''sub'' \<mapsto> JStr s]
     = token_for e s (reading + 43200) (SECRET_KEY e)"
  by (simp add: create_access_token_def token_for_def access_claims_def twelve_hours)

lemma access_claims_simps:
  "access_claims s x (py ''sub'') = Some (JStr s)"
  "access_claims s x (py ''exp'') = Some (JNum x)"
  "access_claims s x (py ''iat'') = None"
  "access_claims s x (py ''nbf'') = None"
  "access_claims s x (py ''aud'') = None"
  "access_claims s x (py ''jti'') = None"
  "access_claims s x (py ''at_hash'') = None"
  by (simp_all add: access_claims_def py_def)

lemma access_claims_classes:
  "time_claims_readable e (access_claims s x)"
  "\<not> claim_rejected e now (access_claims s x)"
  "expired e now (access_claims s x) = (x < now)"
  "subject (access_claims s x) = Some s"
  by (simp_all add: time_claims_readable_def breaks_int_def claim_rejected_def not_an_integer_def
      not_yet_valid_def reads_as_def not_a_string_def expired_def subject_def access_claims_simps)

lemma validate_claims_access:
  "validate_claims e now (access_claims s x) = (if x < now then Some ExpiredSignatureError else None)"
  by (simp add: validate_claims_def validate_iat_def validate_nbf_def validate_exp_def
      validate_aud_def validate_sub_def validate_jti_def validate_at_hash_def claim_int_def
      access_claims_simps)

lemma jwt_decode_token_for:
  "jwt_decode e (token_for e s x key') key now =
     (if hmac (sha256 e) (utf8 key') (jws_signing_input e (access_claims s x))
           \<noteq> hmac (sha256 e) (utf8 key) (jws_signing_input e (access_claims s x))
      then Inl JWTError
      else if x < now then Inl ExpiredSignatureError
      else Inr (access_claims s x))"
  by (simp add: jwt_decode.simps token_for_def jwt_encode_def validate_claims_access)

lemma get_current_user_token_for:
  "now \<le> x \<Longrightarrow>
     get_current_user e now d (Some (token_for e s x (SECRET_KEY e))) =
       (case users_with_email d s of
          [] \<Rightarrow> Inl (HTTPException 401 (py ''User not found''))
        | u # us \<Rightarrow> Inr u)"
  using get_current_user_accepted [of e "token_for e s x (SECRET_KEY e)" now "access_claims s x" d]
  by (simp add: jwt_decode_token_for access_claims_classes)

lemma alice_resolves: "get_current_user env0 50 db0 (Some alice_token) = Inr (1, alice)"
proof -
  have "SECRET_KEY env0 = py ''dev-secret''" by (simp add: env0_def)
  then have "alice_token = token_for env0 (py ''alice@example.com'') 100 (SECRET_KEY env0)"
    by (simp add: alice_token_def)
  then show ?thesis
    using get_current_user_token_for [of 50 100 env0 db0 "py ''alice@example.com''"]
    by (simp add: users_with_email_def db0_def alice_def bob_def py_def)
qed

lemma bob_resolves: "get_current_user env0 50 db0 (Some bob_token) = Inr (2, bob)"
proof -
  have "SECRET_KEY env0 = py ''dev-secret''" by (simp add: env0_def)
  then have "bob_token = token_for env0 (py ''bob@example.com'') 100 (SECRET_KEY env0)"
    by (simp add: bob_token_def)
  then show ?thesis
    using get_current_user_token_for [of 50 100 env0 db0 "py ''bob@example.com''"]
    by (simp add: users_with_email_def db0_def alice_def bob_def py_def)
qed









section \<open>Issuing and verifying tokens\<close>

text \<open>
  The expiry is the reading of \<open>datetime.utcnow().timestamp()\<close> plus 12 hours, and that
  reading is the instant of issuance less the offset of the local zone. A token verified
  at the instant it is issued is accepted when the zone is at most 12 hours east of UTC,
  and is expired already when the zone is farther east.
\<close>

lemma issued_east_of_utc:
  "jwt_decode e (create_access_token e (utcnow_timestamp offset t) [py ''sub'' \<mapsto> JStr s])
       (SECRET_KEY e) t =
     (if offset \<le> 43200 then Inr (access_claims s (t - offset + 43200))
      else Inl ExpiredSignatureError)"
  by (auto simp: create_access_token_eq jwt_decode_token_for utcnow_timestamp_def)

text \<open>
  Claim C2, amended. In a process whose local zone is UTC, for every subject string,
  verifying a token immediately after issuing it for that subject yields the original
  subject. The expiry is computed once at issuance, as the issuance time plus 12 hours,
  and frozen into the token. The token is accepted as long as the current time, in whole
  seconds, is not later than that expiry, the expiry second included; once the current
  time is past it, \<open>jwt.decode\<close> fails with \<open>ExpiredSignatureError\<close> and resolution
  answers 401.
\<close>

theorem issue_then_verify:
  "offset = 0 \<Longrightarrow>
   jwt_decode e (create_access_token e (utcnow_timestamp offset t) [py ''sub'' \<mapsto> JStr s])
       (SECRET_KEY e) t
     = Inr (access_claims s (t + 12 * 60 * 60))
   \<and> subject (access_claims s (t + 12 * 60 * 60)) = Some s
   \<and> access_claims s (t + 12 * 60 * 60) (py ''exp'') = Some (JNum (t + 12 * 60 * 60))
   \<and> (t' \<le> t + 12 * 60 * 60 \<longrightarrow>
        jwt_decode e (create_access_token e (utcnow_timestamp offset t) [py ''sub'' \<mapsto> JStr s])
            (SECRET_KEY e) t'
          = Inr (access_claims s (t + 12 * 60 * 60)))
   \<and> (t + 12 * 60 * 60 < t' \<longrightarrow>
        jwt_decode e (create_access_token e (utcnow_timestamp offset t) [py ''sub'' \<mapsto> JStr s])
            (SECRET_KEY e) t'
          = Inl ExpiredSignatureError
        \<and> get_current_user e t' d
            (Some (create_access_token e (utcnow_timestamp offset t) [py ''sub'' \<mapsto> JStr s]))
          = Inl (HTTPException 401 (py ''Invalid token'')))"
proof -
  assume o: "offset = 0"
  let ?tok = "create_access_token e (utcnow_timestamp offset t) [py ''sub'' \<mapsto> JStr s]"
  have tok: "?tok = token_for e s (t + 43200) (SECRET_KEY e)"
    by (simp add: o create_access_token_eq utcnow_timestamp_def)
  have d: "jwt_decode e ?tok (SECRET_KEY e) t' =
      (if t + 43200 < t' then Inl ExpiredSignatureError else Inr (access_claims s (t + 43200)))" for t'
    unfolding tok by (simp add: jwt_decode_token_for)
  have g: "t + 43200 < t' \<Longrightarrow> get_current_user e t' d (Some ?tok)
      = Inl (HTTPException 401 (py ''Invalid token''))"
    using get_current_user_refused [of e ?tok t' ExpiredSignatureError d] d [of t']
    by (simp add: tok token_for_def jwt_encode_def)
  show ?thesis
    using d [of t] d [of t'] g by (simp add: access_claims_classes access_claims_simps)
qed

text \<open>
  In UTC a token issued at time 1000 is accepted at once and rejected at 44201, one
  second past its expiry.
\<close>

theorem issue_then_verify_witness:
  "jwt_decode env0
     (create_access_token env0 (utcnow_timestamp 0 1000) [py ''sub'' \<mapsto> JStr (py ''bob@example.com'')])
     (SECRET_KEY env0) 1000 = Inr (access_claims (py ''bob@example.com'') 44200)
   \<and> jwt_decode env0
     (create_access_token env0 (utcnow_timestamp 0 1000) [py ''sub'' \<mapsto> JStr (py ''bob@example.com'')])
     (SECRET_KEY env0) 44201 = Inl ExpiredSignatureError
   \<and> get_current_user env0 44201 db0
       (Some (create_access_token env0 (utcnow_timestamp 0 1000)
          [py ''sub'' \<mapsto> JStr (py ''bob@example.com'')]))
     = Inl (HTTPException 401 (py ''Invalid token''))"
  using issue_then_verify [of 0 env0 1000 "py ''bob@example.com''" 44201 db0]
  by simp

text \<open>
  Claim C2 as stated fails. In UTC, when the current time has reached the expiry (44200
  for a token issued at 1000), the token is still verified and resolves to its user. In
  a zone 14 hours east of UTC a token verified at the instant it is issued is expired.
\<close>

theorem issue_then_verify_counterexample:
  "jwt_decode env0
     (create_access_token env0 (utcnow_timestamp 0 1000) [py ''sub'' \<mapsto> JStr (py ''alice@example.com'')])
     (SECRET_KEY env0) (1000 + 12 * 60 * 60)
     = Inr (access_claims (py ''alice@example.com'') (1000 + 12 * 60 * 60))
   \<and> get_current_user env0 (1000 + 12 * 60 * 60) db0
       (Some (create_access_token env0 (utcnow_timestamp 0 1000)
          [py ''sub'' \<mapsto> JStr (py ''alice@example.com'')]))
     = Inr (1, alice)
   \<and> jwt_decode env0
     (create_access_token env0 (utcnow_timestamp (14 * 60 * 60) 100000)
        [py ''sub'' \<mapsto> JStr (py ''alice@example.com'')])
     (SECRET_KEY env0) 100000
     = Inl ExpiredSignatureError"
proof -
  have 1: "jwt_decode env0
     (create_access_token env0 (utcnow_timestamp 0 1000) [py ''sub'' \<mapsto> JStr (py ''alice@example.com'')])
     (SECRET_KEY env0) (1000 + 12 * 60 * 60)
     = Inr (access_claims (py ''alice@example.com'') (1000 + 12 * 60 * 60))"
    by (simp add: create_access_token_eq jwt_decode_token_for utcnow_timestamp_def)
  have 2: "get_current_user env0 (1000 + 12 * 60 * 60) db0
       (Some (create_access_token env0 (utcnow_timestamp 0 1000)
          [py ''sub'' \<mapsto> JStr (py ''alice@example.com'')]))
     = Inr (1, alice)"
  proof -
    have u: "users_with_email db0 (py ''alice@example.com'') = [(1, alice)]"
      by (simp add: users_with_email_def db0_def alice_def bob_def py_def)
    show ?thesis
      using get_current_user_token_for [of 44200 44200 env0 db0 "py ''alice@example.com''"]
      by (simp add: create_access_token_eq utcnow_timestamp_def u)
  qed
  have 3: "jwt_decode env0
     (create_access_token env0 (utcnow_timestamp (14 * 60 * 60) 100000)
        [py ''sub'' \<mapsto> JStr (py ''alice@example.com'')])
     (SECRET_KEY env0) 100000
     = Inl ExpiredSignatureError"
    by (simp add: issued_east_of_utc)
  from 1 2 3 show ?thesis by simp
qed






section \<open>Registration\<close>






section \<open>Flight plans\<close>

lemma create_flight_plan_Inl:
  "get_current_user e now d (Some token) = Inl err \<Longrightarrow>
     create_flight_plan e now d fp token = (Inl err, d)"
  by (simp add: create_flight_plan_def)

lemma create_flight_plan_Inr:
  assumes "get_current_user e now d (Some token) = Inr (uid, u)"
  shows "create_flight_plan e now d fp token =
     (if icao_len_ok (upper (unicode_upper e) (origin fp))
         \<and> icao_len_ok (upper (unicode_upper e) (destination fp))
      then (Inr (next_id d),
            d\<lparr>coll_flightplan := coll_flightplan d @
                 [(next_id d,
                   \<lparr>callsign = callsign fp,
                    origin = upper (unicode_upper e) (origin fp),
                    destination = upper (unicode_upper e) (destination fp),
                    alternates = map (upper (unicode_upper e)) (alternates fp),
                    route = route fp,
                    departure_time = departure_time fp,
                    cruise_altitude = cruise_altitude fp,
                    aircraft_type = aircraft_type fp,
                    user_id = uid\<rparr>)],
              next_id := next_id d + 1\<rparr>)
      else (Inl ValidationError, d))"
  using assms
  by (simp add: create_flight_plan_def FlightPlan_def create_document_flightplan_def)

text \<open>The codes of the spec's example, whatever the case mapping beyond ASCII.\<close>

lemma upper_ascii_example:
  "upper U (py ''kjfk'') = py ''KJFK'' \<and> upper U (py ''klax'') = py ''KLAX''"
  by (simp add: py_def upper_def upper_cp_def)

lemma body0_upper:
  "upper (unicode_upper env0) (origin body0) = py ''KJFK''"
  "upper (unicode_upper env0) (destination body0) = py ''KLAX''"
  "map (upper (unicode_upper env0)) (alternates body0) = [py ''KBUR'', py ''X'', py ''ONTARIO-INTL'']"
  by (simp_all add: body0_def py_def upper_def upper_cp_def)

lemma post_flightplan_invalid:
  "\<not> (icao_len_ok (origin body) \<and> icao_len_ok (destination body)) \<Longrightarrow>
     post_flightplan e now d body token = (Inl RequestValidationError, d)"
  by (auto simp: post_flightplan_def FlightPlanIn_def)

lemma post_flightplan_valid:
  "icao_len_ok (origin body) \<and> icao_len_ok (destination body) \<Longrightarrow>
     post_flightplan e now d body token = create_flight_plan e now d body token"
  by (simp add: post_flightplan_def FlightPlanIn_def)

text \<open>
  Claim C6, a defect of the code. The claim holds of every authenticated creation whose
  origin and destination keep a length of 3 to 4 characters under \<open>str.upper\<close>
  (\<open>create_flight_plan_Inr\<close>; \<open>kjfk\<close> and \<open>klax\<close> become \<open>KJFK\<close> and \<open>KLAX\<close>). It fails
  where upper-casing lengthens a code: Alice is authenticated and the body is valid
  (its origin, three times U+00DF, has three characters), but the upper-cased origin
  \<open>SSSSSS\<close> has six, the constructor of \<open>FlightPlan\<close> raises \<open>ValidationError\<close>, which
  nothing catches, no plan is stored and no id is returned. At the boundary the same
  six characters are refused with the framework's validation error.
\<close>

theorem create_flight_plan_sharp_s:
  "FlightPlanIn body_sharp_s = Inr body_sharp_s
   \<and> get_current_user env0 50 db0 (Some alice_token) = Inr (1, alice)
   \<and> upper (unicode_upper env0) (origin body_sharp_s) = py ''SSSSSS''
   \<and> post_flightplan env0 50 db0 body_sharp_s alice_token = (Inl ValidationError, db0)
   \<and> post_flightplan env0 50 db0 (body0\<lparr>origin := py ''SSSSSS''\<rparr>) alice_token
       = (Inl RequestValidationError, db0)
   \<and> fst (post_flightplan env0 50 db0 body0 alice_token) = Inr 4"
proof -
  have u: "upper (unicode_upper env0) (origin body_sharp_s) = py ''SSSSSS''"
    by (simp add: body_sharp_s_def env0_def upper_def upper_cp_def latin1_upper_def py_def)
  have v: "FlightPlanIn body_sharp_s = Inr body_sharp_s"
    by (simp add: FlightPlanIn_def body_sharp_s_def body0_def icao_len_ok_def py_def)
  have "\<not> icao_len_ok (upper (unicode_upper env0) (origin body_sharp_s))"
    unfolding u by (simp add: icao_len_ok_def py_def)
  then have w: "post_flightplan env0 50 db0 body_sharp_s alice_token = (Inl ValidationError, db0)"
    using create_flight_plan_Inr [OF alice_resolves, of body_sharp_s] v
    by (simp add: post_flightplan_def)
  have "\<not> (icao_len_ok (origin (body0\<lparr>origin := py ''SSSSSS''\<rparr>))
      \<and> icao_len_ok (destination (body0\<lparr>origin := py ''SSSSSS''\<rparr>)))"
    by (simp add: icao_len_ok_def py_def)
  then have x: "post_flightplan env0 50 db0 (body0\<lparr>origin := py ''SSSSSS''\<rparr>) alice_token
       = (Inl RequestValidationError, db0)"
    by (rule post_flightplan_invalid)
  have ok: "icao_len_ok (origin body0) \<and> icao_len_ok (destination body0)
      \<and> icao_len_ok (upper (unicode_upper env0) (origin body0))
      \<and> icao_len_ok (upper (unicode_upper env0) (destination body0))"
    by (simp add: body0_upper) (simp add: body0_def icao_len_ok_def py_def)
  then have y: "fst (post_flightplan env0 50 db0 body0 alice_token) = Inr 4"
    using create_flight_plan_Inr [OF alice_resolves, of body0]
      post_flightplan_valid [of body0 env0 50 db0 alice_token]
    by (simp add: db0_def)
  from u v w x y alice_resolves show ?thesis by simp
qed

text \<open>
  Claim C10. The route rejects a body whose origin or destination is shorter than 3 or
  longer than 4 characters, with a validation error and before any store write. The
  alternates are not length-checked: replacing them by any list of strings does not
  change whether the body validates, and for a request that authenticates and whose
  origin and destination pass the length checks of both models, the plan is accepted
  with every alternate stored upper-cased.
\<close>

theorem flight_plan_length_validation:
  "(length (origin body) < 3 \<or> 4 < length (origin body)
      \<or> length (destination body) < 3 \<or> 4 < length (destination body) \<longrightarrow>
      post_flightplan e now d body token = (Inl RequestValidationError, d))
   \<and> FlightPlanIn (body\<lparr>alternates := alts\<rparr>)
       = (if icao_len_ok (origin body) \<and> icao_len_ok (destination body)
          then Inr (body\<lparr>alternates := alts\<rparr>) else Inl RequestValidationError)
   \<and> (get_current_user e now d (Some token) = Inr (uid, u)
      \<and> icao_len_ok (origin body) \<and> icao_len_ok (destination body)
      \<and> icao_len_ok (upper (unicode_upper e) (origin body))
      \<and> icao_len_ok (upper (unicode_upper e) (destination body)) \<longrightarrow>
      (\<exists>p. post_flightplan e now d (body\<lparr>alternates := alts\<rparr>) token
             = (Inr (next_id d),
                d\<lparr>coll_flightplan := coll_flightplan d @ [(next_id d, p)],
                  next_id := next_id d + 1\<rparr>)
           \<and> alternates p = map (upper (unicode_upper e)) alts))"
proof (intro conjI impI)
  assume "length (origin body) < 3 \<or> 4 < length (origin body)
      \<or> length (destination body) < 3 \<or> 4 < length (destination body)"
  then have "\<not> (icao_len_ok (origin body) \<and> icao_len_ok (destination body))"
    by (auto simp: icao_len_ok_def)
  then show "post_flightplan e now d body token = (Inl RequestValidationError, d)"
    by (rule post_flightplan_invalid)
next
  show "FlightPlanIn (body\<lparr>alternates := alts\<rparr>)
       = (if icao_len_ok (origin body) \<and> icao_len_ok (destination body)
          then Inr (body\<lparr>alternates := alts\<rparr>) else Inl RequestValidationError)"
    by (simp add: FlightPlanIn_def)
next
  assume a: "get_current_user e now d (Some token) = Inr (uid, u)
      \<and> icao_len_ok (origin body) \<and> icao_len_ok (destination body)
      \<and> icao_len_ok (upper (unicode_upper e) (origin body))
      \<and> icao_len_ok (upper (unicode_upper e) (destination body))"
  let ?b = "body\<lparr>alternates := alts\<rparr>"
  let ?p = "\<lparr>callsign = callsign ?b,
             origin = upper (unicode_upper e) (origin ?b),
             destination = upper (unicode_upper e) (destination ?b),
             alternates = map (upper (unicode_upper e)) (alternates ?b),
             route = route ?b,
             departure_time = departure_time ?b,
             cruise_altitude = cruise_altitude ?b,
             aircraft_type = aircraft_type ?b,
             user_id = uid\<rparr>"
  have "post_flightplan e now d ?b token = create_flight_plan e now d ?b token"
    using a post_flightplan_valid [of ?b e now d token] by simp
  also have "\<dots> = (Inr (next_id d),
            d\<lparr>coll_flightplan := coll_flightplan d @ [(next_id d, ?p)],
              next_id := next_id d + 1\<rparr>)"
    using a create_flight_plan_Inr [of e now d token uid u ?b] by simp
  finally have "post_flightplan e now d ?b token = (Inr (next_id d),
            d\<lparr>coll_flightplan := coll_flightplan d @ [(next_id d, ?p)],
              next_id := next_id d + 1\<rparr>)" .
  moreover have "alternates ?p = map (upper (unicode_upper e)) alts" by simp
  ultimately show "\<exists>p. post_flightplan e now d ?b token
             = (Inr (next_id d),
                d\<lparr>coll_flightplan := coll_flightplan d @ [(next_id d, p)],
                  next_id := next_id d + 1\<rparr>)
           \<and> alternates p = map (upper (unicode_upper e)) alts"
    by blast
qed

text \<open>
  An origin of two characters is refused and the store is untouched; alternates of 4, 0
  and 29 characters are accepted and stored upper-cased.
\<close>

theorem flight_plan_length_validation_witness:
  "post_flightplan env0 50 db0 (body0\<lparr>origin := py ''jf''\<rparr>) alice_token
     = (Inl RequestValidationError, db0)
   \<and> map length [py ''kbur'', [], py ''ontario-international-airport''] = [4, 0, 29]
   \<and> map (\<lambda>(i, p). (i, alternates p))
        (coll_flightplan (snd (post_flightplan env0 50 db0
           (body0\<lparr>alternates := [py ''kbur'', [], py ''ontario-international-airport'']\<rparr>)
           alice_token)))
     = [(3, []), (4, [py ''KBUR'', [], py ''ONTARIO-INTERNATIONAL-AIRPORT''])]"
proof -
  have s: "length (origin (body0\<lparr>origin := py ''jf''\<rparr>)) < 3" by (simp add: py_def)
  have 1: "post_flightplan env0 50 db0 (body0\<lparr>origin := py ''jf''\<rparr>) alice_token
     = (Inl RequestValidationError, db0)"
    using flight_plan_length_validation [of "body0\<lparr>origin := py ''jf''\<rparr>" env0 50 db0] s
    by blast
  have ok: "icao_len_ok (origin body0) \<and> icao_len_ok (destination body0)
      \<and> icao_len_ok (upper (unicode_upper env0) (origin body0))
      \<and> icao_len_ok (upper (unicode_upper env0) (destination body0))"
    by (simp add: body0_def icao_len_ok_def py_def upper_def upper_cp_def)
  have up: "map (upper (unicode_upper env0)) [py ''kbur'', [], py ''ontario-international-airport'']
      = [py ''KBUR'', [], py ''ONTARIO-INTERNATIONAL-AIRPORT'']"
    by (simp add: py_def upper_def upper_cp_def)
  from flight_plan_length_validation [of body0 env0 50 db0 alice_token
      "[py ''kbur'', [], py ''ontario-international-airport'']" 1 alice] alice_resolves ok
  obtain p where "post_flightplan env0 50 db0
           (body0\<lparr>alternates := [py ''kbur'', [], py ''ontario-international-airport'']\<rparr>)
           alice_token
       = (Inr (next_id db0),
          db0\<lparr>coll_flightplan := coll_flightplan db0 @ [(next_id db0, p)],
              next_id := next_id db0 + 1\<rparr>)"
    and "alternates p
       = map (upper (unicode_upper env0)) [py ''kbur'', [], py ''ontario-international-airport'']"
    by blast
  then have 2: "map (\<lambda>(i, p). (i, alternates p))
        (coll_flightplan (snd (post_flightplan env0 50 db0
           (body0\<lparr>alternates := [py ''kbur'', [], py ''ontario-international-airport'']\<rparr>)
           alice_token)))
     = [(3, []), (4, [py ''KBUR'', [], py ''ONTARIO-INTERNATIONAL-AIRPORT''])]"
    unfolding up by (simp add: db0_def plan_alice_def)
  have 3: "map length [py ''kbur'', [], py ''ontario-international-airport''] = [4, 0, 29]"
    by (simp add: py_def)
  from 1 2 3 show ?thesis by simp
qed

section \<open>Dashboard\<close>

lemma dashboard_Inr:
  "get_current_user e now d (Some token) = Inr (uid, u) \<Longrightarrow>
     dashboard e now d token = Inr ((name u, email u), take 20 (plans_of_user d uid))"
  by (simp add: dashboard_def get_documents_def plans_of_user_def)

text \<open>
  Claim C8. For every authenticated dashboard request the returned plans are stored
  plans whose \<open>user_id\<close> is the resolving user's id, at most 20 of them, and the user
  summary is that user's name and email. When the user owns no plan the list is empty
  and the summary is still returned.
\<close>

theorem dashboard_own_plans:
  "get_current_user e now d (Some token) = Inr (uid, u) \<Longrightarrow>
   \<exists>plans. dashboard e now d token = Inr ((name u, email u), plans)
     \<and> (\<forall>(i, p) \<in> set plans. user_id p = uid \<and> (i, p) \<in> set (coll_flightplan d))
     \<and> length plans \<le> 20
     \<and> ((\<forall>(i, p) \<in> set (coll_flightplan d). user_id p \<noteq> uid) \<longrightarrow> plans = [])"
proof -
  assume a: "get_current_user e now d (Some token) = Inr (uid, u)"
  let ?plans = "take 20 (plans_of_user d uid)"
  have 1: "dashboard e now d token = Inr ((name u, email u), ?plans)"
    using a by (rule dashboard_Inr)
  have "set ?plans \<subseteq> set (plans_of_user d uid)" by (rule set_take_subset)
  then have 2: "\<forall>(i, p) \<in> set ?plans. user_id p = uid \<and> (i, p) \<in> set (coll_flightplan d)"
    by (auto simp: plans_of_user_def)
  have 3: "length ?plans \<le> 20" by simp
  have 4: "(\<forall>(i, p) \<in> set (coll_flightplan d). user_id p \<noteq> uid) \<longrightarrow> ?plans = []"
    by (auto simp: plans_of_user_def filter_empty_conv)
  from 1 2 3 4 show ?thesis by blast
qed

text \<open>Bob owns no plan: his dashboard has his name and email and an empty list.\<close>

theorem dashboard_own_plans_witness:
  "dashboard env0 50 db0 bob_token = Inr ((py ''Bob'', py ''bob@example.com''), [])
   \<and> dashboard env0 50 db0 alice_token
       = Inr ((py ''Alice'', py ''alice@example.com''), [(3, plan_alice)])"
proof -
  have b: "\<forall>(i, p) \<in> set (coll_flightplan db0). user_id p \<noteq> 2"
    by (simp add: db0_def plan_alice_def)
  from dashboard_own_plans [OF bob_resolves] b
  have 1: "dashboard env0 50 db0 bob_token = Inr ((name bob, email bob), [])"
    by auto
  have 2: "dashboard env0 50 db0 alice_token = Inr ((name alice, email alice), [(3, plan_alice)])"
    using dashboard_Inr [OF alice_resolves]
    by (simp add: plans_of_user_def db0_def plan_alice_def)
  from 1 2 show ?thesis by (simp add: alice_def bob_def)
qed

section \<open>Briefings\<close>

lemma filter_id_Nil:
  "(filter (\<lambda>(i, p). i = pid) xs = []) = (pid \<notin> fst ` set xs)"
  by (auto simp: filter_empty_conv image_iff)

lemma generate_briefing_not_found:
  assumes "get_current_user e now d (Some token) = Inr (uid, u)"
    and "pid \<notin> fst ` set (coll_flightplan d)"
  shows "generate_briefing e now d pid token
           = (Inl (HTTPException 404 (py ''Flight plan not found'')), d)"
proof -
  from assms(2) have "filter (\<lambda>(i, p). i = pid) (coll_flightplan d) = []"
    by (simp add: filter_id_Nil)
  with assms(1) show ?thesis
    by (simp add: generate_briefing_def get_documents_def)
qed

lemma generate_briefing_found:
  assumes "get_current_user e now d (Some token) = Inr (uid, u)"
    and "pid \<in> fst ` set (coll_flightplan d)"
  shows "\<exists>b. generate_briefing e now d pid token
           = (Inr (next_id d, briefing_summary, py ''MEDIUM''),
              d\<lparr>coll_briefing := coll_briefing d @ [(next_id d, b)], next_id := next_id d + 1\<rparr>)
         \<and> b_user_id b = uid \<and> flight_plan_id b = pid
         \<and> summary b = briefing_summary \<and> risk_level b = py ''MEDIUM''"
proof -
  from assms(2) have "filter (\<lambda>(i, p). i = pid) (coll_flightplan d) \<noteq> []"
    by (simp add: filter_id_Nil)
  then obtain x xs where "filter (\<lambda>(i, p). i = pid) (coll_flightplan d) = x # xs"
    by (cases "filter (\<lambda>(i, p). i = pid) (coll_flightplan d)") auto
  with assms(1) show ?thesis
    apply (simp add: generate_briefing_def get_documents_def create_document_briefing_def)
    apply (rule exI)
    apply (intro conjI)
        apply (rule refl)
       apply simp_all
    done
qed

lemma briefing_summary_nonempty: "briefing_summary \<noteq> []"
  by (simp add: briefing_summary_def py_def)

text \<open>
  Claim C4. For every authenticated briefing request the flight plan is looked up by
  its id alone: the request succeeds exactly when some stored plan has the requested
  id, whoever owns that plan, so a user other than the owner obtains a briefing for it;
  the stored briefing carries the id of the resolving user and the requested plan id.
  When no stored plan has the id the request fails with 404 and stores nothing.
\<close>

theorem generate_briefing_ignores_owner:
  "get_current_user e now d (Some token) = Inr (uid, u) \<Longrightarrow>
   ((pid, plan) \<in> set (coll_flightplan d) \<longrightarrow>
      (\<exists>b. generate_briefing e now d pid token
             = (Inr (next_id d, briefing_summary, py ''MEDIUM''),
                d\<lparr>coll_briefing := coll_briefing d @ [(next_id d, b)],
                  next_id := next_id d + 1\<rparr>)
           \<and> b_user_id b = uid \<and> flight_plan_id b = pid))
   \<and> (pid \<notin> fst ` set (coll_flightplan d) \<longrightarrow>
        generate_briefing e now d pid token
          = (Inl (HTTPException 404 (py ''Flight plan not found'')), d))"
proof -
  assume a: "get_current_user e now d (Some token) = Inr (uid, u)"
  show ?thesis
  proof (intro conjI impI)
    assume "(pid, plan) \<in> set (coll_flightplan d)"
    then have "pid \<in> fst ` set (coll_flightplan d)" by force
    from generate_briefing_found [OF a this]
    show "\<exists>b. generate_briefing e now d pid token
             = (Inr (next_id d, briefing_summary, py ''MEDIUM''),
                d\<lparr>coll_briefing := coll_briefing d @ [(next_id d, b)],
                  next_id := next_id d + 1\<rparr>)
           \<and> b_user_id b = uid \<and> flight_plan_id b = pid"
      by blast
  next
    assume "pid \<notin> fst ` set (coll_flightplan d)"
    from generate_briefing_not_found [OF a this]
    show "generate_briefing e now d pid token
          = (Inl (HTTPException 404 (py ''Flight plan not found'')), d)" .
  qed
qed

text \<open>
  Plan 3 belongs to Alice (user 1); Bob (user 2) requests a briefing for it and gets
  one, stored under his id. For the id 99, which no plan has, he gets 404.
\<close>

theorem generate_briefing_ignores_owner_witness:
  "(3, plan_alice) \<in> set (coll_flightplan db0) \<and> user_id plan_alice = 1
   \<and> get_current_user env0 50 db0 (Some bob_token) = Inr (2, bob)
   \<and> fst (generate_briefing env0 50 db0 3 bob_token) = Inr (4, briefing_summary, py ''MEDIUM'')
   \<and> map (\<lambda>(i, b). (i, b_user_id b, flight_plan_id b))
        (coll_briefing (snd (generate_briefing env0 50 db0 3 bob_token)))
       = [(4, 2, 3)]
   \<and> generate_briefing env0 50 db0 99 bob_token
       = (Inl (HTTPException 404 (py ''Flight plan not found'')), db0)"
proof -
  have p: "(3, plan_alice) \<in> set (coll_flightplan db0)" by (simp add: db0_def)
  have o: "user_id plan_alice = 1" by (simp add: plan_alice_def)
  have n: "(99::nat) \<notin> fst ` set (coll_flightplan db0)" by (simp add: db0_def)
  from generate_briefing_ignores_owner [OF bob_resolves, of 3 plan_alice] p obtain b where
    "generate_briefing env0 50 db0 3 bob_token
       = (Inr (next_id db0, briefing_summary, py ''MEDIUM''),
          db0\<lparr>coll_briefing := coll_briefing db0 @ [(next_id db0, b)],
              next_id := next_id db0 + 1\<rparr>)"
    and "b_user_id b = 2" "flight_plan_id b = 3"
    by blast
  moreover from generate_briefing_ignores_owner [OF bob_resolves, of 99 plan_alice] n
  have "generate_briefing env0 50 db0 99 bob_token
       = (Inl (HTTPException 404 (py ''Flight plan not found'')), db0)"
    by blast
  ultimately show ?thesis using p o bob_resolves by (simp add: db0_def)
qed

text \<open>
  Claim C7. For an authenticated request, a flight-plan id that matches no stored plan
  fails with \<open>HTTPException 404\<close> and the store, its briefings included, stays as it
  was; an id of a stored plan returns the id of the new briefing with its summary and
  risk level, the summary non-empty and the risk level one of LOW, MEDIUM, HIGH.
\<close>

theorem generate_briefing_not_found_or_briefing:
  "get_current_user e now d (Some token) = Inr (uid, u) \<Longrightarrow>
   (pid \<notin> fst ` set (coll_flightplan d) \<longrightarrow>
      generate_briefing e now d pid token
        = (Inl (HTTPException 404 (py ''Flight plan not found'')), d))
   \<and> (pid \<in> fst ` set (coll_flightplan d) \<longrightarrow>
      (\<exists>i s r b d'. generate_briefing e now d pid token = (Inr (i, s, r), d')
         \<and> coll_briefing d' = coll_briefing d @ [(i, b)]
         \<and> summary b = s \<and> risk_level b = r
         \<and> r \<in> {py ''LOW'', py ''MEDIUM'', py ''HIGH''} \<and> s \<noteq> []))"
proof -
  assume a: "get_current_user e now d (Some token) = Inr (uid, u)"
  show ?thesis
  proof (intro conjI impI)
    assume "pid \<notin> fst ` set (coll_flightplan d)"
    from generate_briefing_not_found [OF a this]
    show "generate_briefing e now d pid token
        = (Inl (HTTPException 404 (py ''Flight plan not found'')), d)" .
  next
    assume "pid \<in> fst ` set (coll_flightplan d)"
    from generate_briefing_found [OF a this] obtain b where
      g: "generate_briefing e now d pid token
           = (Inr (next_id d, briefing_summary, py ''MEDIUM''),
              d\<lparr>coll_briefing := coll_briefing d @ [(next_id d, b)], next_id := next_id d + 1\<rparr>)"
      and b: "summary b = briefing_summary" "risk_level b = py ''MEDIUM''"
      by blast
    show "\<exists>i s r b d'. generate_briefing e now d pid token = (Inr (i, s, r), d')
         \<and> coll_briefing d' = coll_briefing d @ [(i, b)]
         \<and> summary b = s \<and> risk_level b = r
         \<and> r \<in> {py ''LOW'', py ''MEDIUM'', py ''HIGH''} \<and> s \<noteq> []"
      apply (rule exI [of _ "next_id d"], rule exI [of _ briefing_summary],
          rule exI [of _ "py ''MEDIUM''"], rule exI [of _ b])
      using g b briefing_summary_nonempty by simp
  qed
qed

text \<open>No plan has id 5: Alice's request fails with 404; for her plan 3 it succeeds.\<close>

theorem generate_briefing_not_found_or_briefing_witness:
  "generate_briefing env0 50 db0 5 alice_token
     = (Inl (HTTPException 404 (py ''Flight plan not found'')), db0)
   \<and> fst (generate_briefing env0 50 db0 3 alice_token) = Inr (4, briefing_summary, py ''MEDIUM'')"
proof -
  have n: "(5::nat) \<notin> fst ` set (coll_flightplan db0)" by (simp add: db0_def)
  have "fst (generate_briefing env0 50 db0 3 alice_token) = Inr (4, briefing_summary, py ''MEDIUM'')"
    using alice_resolves
    by (simp add: generate_briefing_def get_documents_def db0_def create_document_briefing_def)
  with generate_briefing_not_found_or_briefing [OF alice_resolves, of 5] n show ?thesis by simp
qed

end
